theory Spec2Isabelle
  imports Main "HOL-Library.Sublist" "HOL-Library.Char_ord" "HOL-Library.List_Lexorder"
begin

section \<open>Data model\<close>

text \<open>
  The values the scrapers store under the keys of an article or snapshot dictionary are
  Python strings or \<^verbatim>\<open>None\<close>. A dictionary with a known universe of keys is a
  record with one optional field per key: \<open>None\<close> says that the key is absent,
  \<open>Some PNone\<close> that it is present and holds \<^verbatim>\<open>None\<close>. A Python string is a
  list of characters, one \<open>char\<close> for each character that \<^verbatim>\<open>len\<close> counts and a slice
  cuts at.
\<close>

datatype pyval = PNone | PStr string

text \<open>Python truthiness of such a value: \<^verbatim>\<open>None\<close> and the empty string are falsy.\<close>

fun truthy :: "pyval \<Rightarrow> bool" where
  "truthy PNone = False"
| "truthy (PStr s) = (s \<noteq> [])"

text \<open>\<^verbatim>\<open>d.get(key)\<close>: the stored value, or \<^verbatim>\<open>None\<close> for an absent key.\<close>

definition dict_get :: "pyval option \<Rightarrow> pyval" where
  "dict_get f = (case f of None \<Rightarrow> PNone | Some v \<Rightarrow> v)"

datatype error = KeyError | AttributeError | ValueError | JSONDecodeError | OSError

record article =
  title :: "pyval option"
  link :: "pyval option"
  date :: "pyval option"
  content_preview :: "pyval option"
  category :: "pyval option"
  source :: "pyval option"

record snapshot =
  competitor :: "pyval option"
  blog_source :: "pyval option"
  url :: "pyval option"
  timestamp :: "pyval option"
  articles :: "article list option"
  article_count :: "nat option"
  error :: "pyval option"

section \<open>utils.py: merge_competitor_data\<close>

record merged =
  merged_articles :: "article list"
  merged_timestamps :: "pyval list"
  merged_errors :: "pyval list"

text \<open>
  The first loop of \<^verbatim>\<open>merge_competitor_data\<close>: extend the article list by
  \<^verbatim>\<open>data.get('articles', [])\<close>, append \<^verbatim>\<open>data.get('timestamp')\<close>, and append
  \<^verbatim>\<open>data['error']\<close> when the key is there.
\<close>

definition merge_step :: "merged \<Rightarrow> snapshot \<Rightarrow> merged" where
  "merge_step m d =
     \<lparr>merged_articles = merged_articles m @ (case articles d of None \<Rightarrow> [] | Some as \<Rightarrow> as),
      merged_timestamps = merged_timestamps m @ [dict_get (timestamp d)],
      merged_errors = merged_errors m @ (case error d of None \<Rightarrow> [] | Some e \<Rightarrow> [e])\<rparr>"

text \<open>
  The second loop of \<^verbatim>\<open>merge_competitor_data\<close>, with its two variables
  \<^verbatim>\<open>seen_titles\<close> and \<^verbatim>\<open>unique_articles\<close>:
  \<^verbatim>\<open>title = article.get('title'); if title and title not in seen_titles: ...\<close>
\<close>

fun merge_unique_loop :: "pyval set \<Rightarrow> article list \<Rightarrow> article list \<Rightarrow> article list" where
  "merge_unique_loop seen_titles unique_articles [] = unique_articles"
| "merge_unique_loop seen_titles unique_articles (a # as) =
     (let t = dict_get (title a) in
      if truthy t \<and> t \<notin> seen_titles
      then merge_unique_loop (insert t seen_titles) (unique_articles @ [a]) as
      else merge_unique_loop seen_titles unique_articles as)"

definition merge_unique :: "article list \<Rightarrow> article list" where
  "merge_unique as = merge_unique_loop {} [] as"

definition merge_competitor_data :: "snapshot list \<Rightarrow> merged" where
  "merge_competitor_data data_list =
     (let m = foldl merge_step
                \<lparr>merged_articles = [], merged_timestamps = [], merged_errors = []\<rparr> data_list
      in m\<lparr>merged_articles := merge_unique (merged_articles m)\<rparr>)"

section \<open>google\_scraper.py: \_remove\_duplicates\<close>



section \<open>Proof device: first occurrence by key\<close>

text \<open>
  Both loops keep the first acceptable element of every key not seen before. The
  function below says so without the accumulator; the loops are related to it, and the
  properties are proved once.
\<close>

fun first_by :: "('a \<Rightarrow> 'k) \<Rightarrow> ('a \<Rightarrow> bool) \<Rightarrow> 'k set \<Rightarrow> 'a list \<Rightarrow> 'a list" where
  "first_by key ok seen [] = []"
| "first_by key ok seen (x # xs) =
     (if ok x \<and> key x \<notin> seen then x # first_by key ok (insert (key x) seen) xs
      else first_by key ok seen xs)"

definition has_title :: "article \<Rightarrow> bool" where
  "has_title a = truthy (dict_get (title a))"

definition title_key :: "article \<Rightarrow> pyval" where
  "title_key a = dict_get (title a)"


section \<open>Example records\<close>

definition plain_article :: "pyval option \<Rightarrow> pyval option \<Rightarrow> article" where
  "plain_article t l =
     \<lparr>title = t, link = l, date = None, content_preview = None, category = None, source = None\<rparr>"


definition untitled_records :: "article list" where
  "untitled_records =
     [plain_article None None,
      plain_article (Some (PStr [])) None,
      plain_article (Some PNone) None,
      plain_article (Some (PStr ''Beta'')) None]"


definition no_snapshot :: snapshot where
  "no_snapshot =
     \<lparr>competitor = None, blog_source = None, url = None, timestamp = None, articles = None,
      article_count = None, error = None\<rparr>"

section \<open>utils.py: calculate_statistics\<close>

record comp_stats =
  file_count :: nat
  stats_article_count :: nat
  error_count :: nat

record stats =
  total_files :: nat
  total_articles :: nat
  competitors :: "pyval \<rightharpoonup> comp_stats"
  range_start :: pyval
  range_end :: pyval

text \<open>
  Python compares two strings code point by code point, a proper prefix being smaller:
  the lexicographic order of lists. The function is only reached with two non-empty
  strings (each comparison stands behind the truthiness tests of both operands).
\<close>

fun py_less :: "pyval \<Rightarrow> pyval \<Rightarrow> bool" where
  "py_less (PStr a) (PStr b) = (a < b)"
| "py_less _ _ = False"

text \<open>
  One round of the loop over the files. The argument is what \<^verbatim>\<open>load_json_file\<close>
  gave for the file: \<open>None\<close> when it is falsy (the file could not be read, or it
  holds an empty document), so that \<^verbatim>\<open>if data:\<close> skips it.
\<close>

definition stats_step :: "stats \<Rightarrow> snapshot option \<Rightarrow> stats" where
  "stats_step st f =
     (case f of
        None \<Rightarrow> st
      | Some d \<Rightarrow>
          let c = (case competitor d of None \<Rightarrow> PStr ''Unknown'' | Some v \<Rightarrow> v);
              arts = (case articles d of None \<Rightarrow> [] | Some as \<Rightarrow> as);
              cs = (case competitors st c of
                      None \<Rightarrow> \<lparr>file_count = 0, stats_article_count = 0, error_count = 0\<rparr>
                    | Some x \<Rightarrow> x);
              cs' = \<lparr>file_count = file_count cs + 1,
                     stats_article_count = stats_article_count cs + length arts,
                     error_count = (if error d \<noteq> None then error_count cs + 1 else error_count cs)\<rparr>;
              ts = dict_get (timestamp d)
          in st\<lparr>competitors := (competitors st)(c \<mapsto> cs'),
                total_articles := total_articles st + length arts,
                range_start :=
                  (if truthy ts \<and> (\<not> truthy (range_start st) \<or> py_less ts (range_start st))
                   then ts else range_start st),
                range_end :=
                  (if truthy ts \<and> (\<not> truthy (range_end st) \<or> py_less (range_end st) ts)
                   then ts else range_end st)\<rparr>)"

definition calculate_statistics :: "snapshot option list \<Rightarrow> stats" where
  "calculate_statistics json_files =
     foldl stats_step
       \<lparr>total_files = length json_files, total_articles = 0, competitors = Map.empty,
        range_start = PNone, range_end = PNone\<rparr>
       json_files"

subsection \<open>The aggregate in the words of the specification\<close>

primrec loaded :: "snapshot option list \<Rightarrow> snapshot list" where
  "loaded [] = []"
| "loaded (f # fs) = (case f of None \<Rightarrow> loaded fs | Some d \<Rightarrow> d # loaded fs)"

definition source_of :: "snapshot \<Rightarrow> pyval" where
  "source_of d = (case competitor d of None \<Rightarrow> PStr ''Unknown'' | Some v \<Rightarrow> v)"

definition records_of :: "snapshot \<Rightarrow> article list" where
  "records_of d = (case articles d of None \<Rightarrow> [] | Some as \<Rightarrow> as)"

definition snapshots_of :: "pyval \<Rightarrow> snapshot option list \<Rightarrow> snapshot list" where
  "snapshots_of c fs = filter (\<lambda>d. source_of d = c) (loaded fs)"

primrec stamps :: "snapshot list \<Rightarrow> string list" where
  "stamps [] = []"
| "stamps (d # ds) =
     (case dict_get (timestamp d) of
        PNone \<Rightarrow> stamps ds
      | PStr s \<Rightarrow> if s = [] then stamps ds else s # stamps ds)"

definition openai_snapshot :: "nat \<Rightarrow> string \<Rightarrow> snapshot" where
  "openai_snapshot n ts =
     \<lparr>competitor = Some (PStr ''OpenAI''), blog_source = None,
      url = Some (PStr ''https://openai.com/blog''), timestamp = Some (PStr ts),
      articles = Some (replicate n (plain_article (Some (PStr ''Alpha'')) None)),
      article_count = Some n, error = None\<rparr>"

definition tally :: "snapshot list \<Rightarrow> comp_stats option" where
  "tally ds =
     (if ds = [] then None
      else Some \<lparr>file_count = length ds,
                 stats_article_count = (\<Sum>d \<leftarrow> ds. length (records_of d)),
                 error_count = length (filter (\<lambda>d. error d \<noteq> None) ds)\<rparr>)"

definition lowest :: "string list \<Rightarrow> pyval" where
  "lowest ss = (if ss = [] then PNone else PStr (Min (set ss)))"

definition highest :: "string list \<Rightarrow> pyval" where
  "highest ss = (if ss = [] then PNone else PStr (Max (set ss)))"

definition ex_files :: "snapshot option list" where
  "ex_files =
     [Some (openai_snapshot 4 ''2024-01-02T09:00:00''), None,
      Some (openai_snapshot 6 ''2024-01-01T09:00:00'')]"

section \<open>scraper.py: configuration\<close>

text \<open>
  A competitor entry and the configuration are dictionaries read from JSON; the code
  reads every key but \<^verbatim>\<open>competitor['url']\<close> with \<^verbatim>\<open>.get\<close>, so each key may be
  absent (\<open>None\<close>).
\<close>

record competitor_entry =
  name :: "string option"
  site_url :: "string option"
  selector :: "string option"
  title_selector :: "string option"
  date_selector :: "string option"
  content_selector :: "string option"

record config =
  config_competitors :: "competitor_entry list option"
  request_timeout :: "int option"
  rate_limit_delay :: "int option"
  user_agent :: "string option"

definition get_default_config :: config where
  "get_default_config =
     \<lparr>config_competitors =
        Some [\<lparr>name = Some ''OpenAI'', site_url = Some ''https://openai.com/blog'',
               selector = Some ''article'', title_selector = Some ''h2, h3'',
               date_selector = Some ''time'', content_selector = Some ''p''\<rparr>],
      request_timeout = Some 30, rate_limit_delay = Some 2,
      user_agent = Some ''AI-Competitor-Tracker/1.0''\<rparr>"

text \<open>
  What \<^verbatim>\<open>open(config_path, 'r')\<close> finds: no file (\<^verbatim>\<open>FileNotFoundError\<close>), a path that
  cannot be opened for another reason (any other \<^verbatim>\<open>OSError\<close>), or the text of the file.
\<close>

datatype file_state = NotFound | CannotOpen | FileText string

datatype level = DEBUG | INFO | WARNING | ERROR

text \<open>
  \<^verbatim>\<open>_load_config\<close>. The JSON reader is the library's: \<open>json_load\<close> gives the
  configuration a text denotes, or \<open>None\<close> where \<^verbatim>\<open>json.load\<close> raises
  \<^verbatim>\<open>JSONDecodeError\<close>. Only \<^verbatim>\<open>FileNotFoundError\<close> is caught. The result carries the
  lines written to the log.
\<close>

definition load_config ::
  "(string \<Rightarrow> config option) \<Rightarrow> (string \<Rightarrow> file_state) \<Rightarrow> string
     \<Rightarrow> (level \<times> string) list \<times> (error + config)" where
  "load_config json_load files config_path =
     (case files config_path of
        FileText raw \<Rightarrow>
          (case json_load raw of
             None \<Rightarrow> ([], Inl JSONDecodeError)
           | Some cfg \<Rightarrow> ([], Inr cfg))
      | NotFound \<Rightarrow>
          ([(WARNING, ''Config file '' @ config_path @ '' not found. Using defaults.'')],
           Inr get_default_config)
      | CannotOpen \<Rightarrow> ([], Inl OSError))"

section \<open>The parsed page\<close>

text \<open>
  A tag as BeautifulSoup hands it to the scrapers, by the four things they ask of it:
  \<open>get_text\<close> is the result of \<^verbatim>\<open>get_text(strip=True)\<close>, \<open>attrs\<close> the attributes
  of the tag, \<open>select e css\<close> the list \<^verbatim>\<open>e.select(css)\<close> in document order, and
  \<open>parent\<close> the enclosing tag. A tag is truthy whatever it contains. The selectors
  are taken to be well-formed, so that \<^verbatim>\<open>select\<close> returns.
\<close>

datatype element =
  Element (get_text: string) (attrs: "(string \<times> string) list")
    (select: "string \<Rightarrow> element list") (parent: "element option")

definition select_one :: "element \<Rightarrow> string \<Rightarrow> element option" where
  "select_one e css = (case select e css of [] \<Rightarrow> None | x # _ \<Rightarrow> Some x)"

text \<open>\<^verbatim>\<open>tag.get(key)\<close>: the value of the attribute, or \<^verbatim>\<open>None\<close>.\<close>

definition get_attr :: "element \<Rightarrow> string \<Rightarrow> pyval" where
  "get_attr e key = (case map_of (attrs e) key of None \<Rightarrow> PNone | Some v \<Rightarrow> PStr v)"

text \<open>\<^verbatim>\<open>d.get(key, default)\<close> on a configuration entry.\<close>

definition get_or :: "string option \<Rightarrow> string \<Rightarrow> string" where
  "get_or v fallback = (case v of None \<Rightarrow> fallback | Some s \<Rightarrow> s)"

text \<open>\<^verbatim>\<open>sep.join(parts)\<close>\<close>

fun join :: "string \<Rightarrow> string list \<Rightarrow> string" where
  "join sep [] = []"
| "join sep [x] = x"
| "join sep (x # y # ys) = x @ sep @ join sep (y # ys)"

text \<open>\<^verbatim>\<open>content[:500] if content else None\<close>\<close>

definition preview :: "pyval \<Rightarrow> pyval" where
  "preview body = (case body of PNone \<Rightarrow> PNone
                      | PStr c \<Rightarrow> if c \<noteq> [] then PStr (take 500 c) else PNone)"

text \<open>
  The idiom \<^verbatim>\<open>if link and not link.startswith('http'): link = urljoin(base, link)\<close>.
  \<^verbatim>\<open>urljoin\<close> is the library's, a parameter here: \<open>None\<close> where it raises
  \<^verbatim>\<open>ValueError\<close>. The base is read only when it is needed; in scraper.py it is
  \<^verbatim>\<open>competitor['url']\<close>, a \<^verbatim>\<open>KeyError\<close> when the entry has no such key.
\<close>

definition absolutize ::
  "(string \<Rightarrow> string \<Rightarrow> string option) \<Rightarrow> string option \<Rightarrow> pyval \<Rightarrow> error + pyval" where
  "absolutize urljoin base href =
     (case href of
        PNone \<Rightarrow> Inr PNone
      | PStr l \<Rightarrow>
          if l \<noteq> [] \<and> \<not> prefix ''http'' l
          then (case base of
                  None \<Rightarrow> Inl KeyError
                | Some b \<Rightarrow> (case urljoin b l of None \<Rightarrow> Inl ValueError | Some u \<Rightarrow> Inr (PStr u)))
          else Inr (PStr l))"

section \<open>scraper.py: \_extract\_article\_data\<close>

text \<open>
  The body of the \<^verbatim>\<open>try\<close>; the \<^verbatim>\<open>except Exception\<close> around it turns every error
  into \<^verbatim>\<open>None\<close>.
\<close>

definition extract_article_data_try ::
  "(string \<Rightarrow> string \<Rightarrow> string option) \<Rightarrow> element \<Rightarrow> competitor_entry \<Rightarrow> error + article option" where
  "extract_article_data_try urljoin article_element entry =
     (let title = (case select_one article_element (get_or (title_selector entry) ''h2, h3'') of
                     None \<Rightarrow> PNone
                   | Some title_elem \<Rightarrow> PStr (get_text title_elem));
          date = (case select_one article_element (get_or (date_selector entry) ''time'') of
                    None \<Rightarrow> PNone
                  | Some date_elem \<Rightarrow>
                      (case get_attr date_elem ''datetime'' of
                         PNone \<Rightarrow> PStr (get_text date_elem)
                       | PStr v \<Rightarrow> PStr v));
          content_elems = select article_element (get_or (content_selector entry) ''p'');
          content = join '' '' (map get_text (take 3 content_elems));
          link = (case select_one article_element ''a'' of
                    None \<Rightarrow> PNone
                  | Some link_elem \<Rightarrow> get_attr link_elem ''href'')
      in case absolutize urljoin (site_url entry) link of
           Inl e \<Rightarrow> Inl e
         | Inr link' \<Rightarrow>
             if truthy title
             then Inr (Some \<lparr>title = Some title, link = Some link', date = Some date,
                             content_preview = Some (preview (PStr content)),
                             category = None, source = None\<rparr>)
             else Inr None)"

definition extract_article_data ::
  "(string \<Rightarrow> string \<Rightarrow> string option) \<Rightarrow> element \<Rightarrow> competitor_entry \<Rightarrow> article option" where
  "extract_article_data urljoin article_element entry =
     (case extract_article_data_try urljoin article_element entry of
        Inl e \<Rightarrow> None
      | Inr r \<Rightarrow> r)"

section \<open>google\_scraper.py: the extraction routines\<close>

text \<open>
  The title loop of \<^verbatim>\<open>_extract_google_article\<close>: the variable \<^verbatim>\<open>title\<close> (here
  \<open>cur\<close>) is assigned at every selector that matches, and the loop is left at the first
  text longer than 10.
\<close>

fun google_title :: "element \<Rightarrow> string list \<Rightarrow> pyval \<Rightarrow> pyval" where
  "google_title element [] cur = cur"
| "google_title element (s # selectors) cur =
     (case select_one element s of
        None \<Rightarrow> google_title element selectors cur
      | Some title_elem \<Rightarrow>
          if get_text title_elem \<noteq> [] \<and> length (get_text title_elem) > 10
          then PStr (get_text title_elem)
          else google_title element selectors (PStr (get_text title_elem)))"

text \<open>
  The date loop: the first selector that matches decides;
  \<^verbatim>\<open>date_elem.get('datetime') or date_elem.get_text(strip=True)\<close>.
\<close>

fun google_date :: "element \<Rightarrow> string list \<Rightarrow> pyval" where
  "google_date element [] = PNone"
| "google_date element (s # selectors) =
     (case select_one element s of
        None \<Rightarrow> google_date element selectors
      | Some date_elem \<Rightarrow>
          if truthy (get_attr date_elem ''datetime'') then get_attr date_elem ''datetime''
          else PStr (get_text date_elem))"

text \<open>The content loop: left at the first non-empty text.\<close>

fun google_content :: "element \<Rightarrow> string list \<Rightarrow> pyval \<Rightarrow> pyval" where
  "google_content element [] cur = cur"
| "google_content element (s # selectors) cur =
     (case select_one element s of
        None \<Rightarrow> google_content element selectors cur
      | Some content_elem \<Rightarrow>
          if get_text content_elem \<noteq> [] then PStr (get_text content_elem)
          else google_content element selectors (PStr (get_text content_elem)))"

definition title_selectors :: "string list" where
  \<open>title_selectors = [''h2'', ''h3'', ''h4'', ''.headline'', ''[class*="title"]'', ''a'']\<close>

definition date_selectors :: "string list" where
  \<open>date_selectors = [''time'', ''[datetime]'', ''[class*="date"]'', ''[class*="time"]'']\<close>

definition content_selectors :: "string list" where
  \<open>content_selectors =
     [''p'', ''[class*="excerpt"]'', ''[class*="summary"]'', ''[class*="description"]'']\<close>

definition extract_google_article_try ::
  "(string \<Rightarrow> string \<Rightarrow> string option) \<Rightarrow> element \<Rightarrow> string \<Rightarrow> error + article option" where
  \<open>extract_google_article_try urljoin element base_url =
     (let title = google_title element title_selectors PNone
      in if \<not> truthy title then Inr None
         else
           case (case select_one element ''a[href]'' of
                   None \<Rightarrow> Inr PNone
                 | Some link_elem \<Rightarrow> absolutize urljoin (Some base_url) (get_attr link_elem ''href'')) of
             Inl e \<Rightarrow> Inl e
           | Inr link' \<Rightarrow>
               let date = google_date element date_selectors;
                   content = google_content element content_selectors PNone;
                   category = (case select_one element ''[class*="category"], [class*="tag"]'' of
                                 None \<Rightarrow> PNone
                               | Some category_elem \<Rightarrow> PStr (get_text category_elem))
               in Inr (Some \<lparr>title = Some title, link = Some link', date = Some date,
                              content_preview = Some (preview content),
                              category = Some category, source = Some (PStr ''Google AI Blog'')\<rparr>))\<close>

definition extract_google_article ::
  "(string \<Rightarrow> string \<Rightarrow> string option) \<Rightarrow> element \<Rightarrow> string \<Rightarrow> article option" where
  "extract_google_article urljoin element base_url =
     (case extract_google_article_try urljoin element base_url of Inl e \<Rightarrow> None | Inr r \<Rightarrow> r)"

definition extract_deepmind_article_try ::
  "(string \<Rightarrow> string \<Rightarrow> string option) \<Rightarrow> element \<Rightarrow> string \<Rightarrow> error + article option" where
  \<open>extract_deepmind_article_try urljoin element base_url =
     (let title = (case select_one element ''h2, h3, a[href*="/blog/"]'' of
                     None \<Rightarrow> PNone
                   | Some title_elem \<Rightarrow> PStr (get_text title_elem))
      in if \<not> truthy title \<or> (case title of PNone \<Rightarrow> False | PStr t \<Rightarrow> length t < 10) then Inr None
         else
           case absolutize urljoin (Some base_url)
                  (case select_one element ''a[href]'' of
                     None \<Rightarrow> PNone
                   | Some link_elem \<Rightarrow> get_attr link_elem ''href'') of
             Inl e \<Rightarrow> Inl e
           | Inr link' \<Rightarrow>
               let date = (case select_one element ''time, [class*="date"]'' of
                             None \<Rightarrow> PNone
                           | Some date_elem \<Rightarrow> PStr (get_text date_elem));
                   content = (case select_one element ''p, [class*="summary"]'' of
                                None \<Rightarrow> PNone
                              | Some content_elem \<Rightarrow> PStr (get_text content_elem))
               in Inr (Some \<lparr>title = Some title, link = Some link', date = Some date,
                              content_preview = Some (preview content),
                              category = None, source = Some (PStr ''DeepMind'')\<rparr>))\<close>

definition extract_deepmind_article ::
  "(string \<Rightarrow> string \<Rightarrow> string option) \<Rightarrow> element \<Rightarrow> string \<Rightarrow> article option" where
  "extract_deepmind_article urljoin element base_url =
     (case extract_deepmind_article_try urljoin element base_url of Inl e \<Rightarrow> None | Inr r \<Rightarrow> r)"

definition extract_from_link_try ::
  "(string \<Rightarrow> string \<Rightarrow> string option) \<Rightarrow> element \<Rightarrow> string \<Rightarrow> error + article option" where
  \<open>extract_from_link_try urljoin link_element base_url =
     (let title = get_text link_element
      in if title = [] \<or> length title < 10 then Inr None
         else
           case absolutize urljoin (Some base_url) (get_attr link_element ''href'') of
             Inl e \<Rightarrow> Inl e
           | Inr href \<Rightarrow>
               let content = (case parent link_element of
                                None \<Rightarrow> PNone
                              | Some p \<Rightarrow>
                                  (case select_one p ''p'' of
                                     None \<Rightarrow> PNone
                                   | Some content_elem \<Rightarrow> PStr (get_text content_elem)));
                   date = (case parent link_element of
                             None \<Rightarrow> PNone
                           | Some p \<Rightarrow>
                               (case select_one p ''time, [class*="date"]'' of
                                  None \<Rightarrow> PNone
                                | Some date_elem \<Rightarrow> PStr (get_text date_elem)))
               in Inr (Some \<lparr>title = Some (PStr title), link = Some href, date = Some date,
                              content_preview = Some (preview content),
                              category = None, source = Some (PStr ''Google AI'')\<rparr>))\<close>

definition extract_from_link ::
  "(string \<Rightarrow> string \<Rightarrow> string option) \<Rightarrow> element \<Rightarrow> string \<Rightarrow> article option" where
  "extract_from_link urljoin link_element base_url =
     (case extract_from_link_try urljoin link_element base_url of Inl e \<Rightarrow> None | Inr r \<Rightarrow> r)"

section \<open>utils.py: truncate\_text\<close>

text \<open>
  \<^verbatim>\<open>text[:k]\<close> for a Python integer \<open>k\<close>: a negative \<open>k\<close> counts from the end.
\<close>

definition slice_to :: "string \<Rightarrow> int \<Rightarrow> string" where
  "slice_to s k = (if k < 0 then take (nat (int (length s) + k)) s else take (nat k) s)"

definition truncate_text :: "string \<Rightarrow> int \<Rightarrow> string" where
  "truncate_text s max_length =
     (if s = [] then []
      else if int (length s) \<le> max_length then s
      else slice_to s (max_length - 3) @ ''...'')"

section \<open>Example pages\<close>

definition leaf :: "string \<Rightarrow> (string \<times> string) list \<Rightarrow> element" where
  "leaf t as = Element t as (\<lambda>css. []) None"

text \<open>\<^verbatim>\<open><article><h2>News</h2></article>\<close>\<close>

definition short_title_container :: element where
  \<open>short_title_container =
     Element ''News'' []
       (\<lambda>css. if css \<in> {''h2'', ''h2, h3'', ''h2, h3, a[href*="/blog/"]''}
              then [leaf ''News'' []] else [])
       None\<close>

text \<open>
  \<^verbatim>\<open><article><h2>AI Breakthrough in Reasoning</h2>\<close>
  \<^verbatim>\<open><time datetime="2024-01-01">January 1, 2024</time></article>\<close>
\<close>

definition dated_container :: element where
  \<open>dated_container =
     Element ''AI Breakthrough in ReasoningJanuary 1, 2024'' []
       (\<lambda>css. if css \<in> {''h2'', ''h2, h3'', ''h2, h3, a[href*="/blog/"]''}
              then [leaf ''AI Breakthrough in Reasoning'' []]
              else if css \<in> {''time'', ''[datetime]'', ''time, [class*="date"]''}
              then [leaf ''January 1, 2024'' [(''datetime'', ''2024-01-01'')]]
              else [])
       None\<close>

text \<open>
  \<^verbatim>\<open><article><h2>AI Breakthrough in Reasoning</h2><a id="top"></a>\<close>
  \<^verbatim>\<open><a href="/blog/x">Read more</a></article>\<close>
\<close>

definition anchored_container :: element where
  \<open>anchored_container =
     Element ''AI Breakthrough in ReasoningRead more'' []
       (\<lambda>css. if css \<in> {''h2'', ''h2, h3''}
              then [leaf ''AI Breakthrough in Reasoning'' []]
              else if css = ''h2, h3, a[href*="/blog/"]''
              then [leaf ''AI Breakthrough in Reasoning'' [],
                    leaf ''Read more'' [(''href'', ''/blog/x'')]]
              else if css = ''a''
              then [leaf [] [(''id'', ''top'')], leaf ''Read more'' [(''href'', ''/blog/x'')]]
              else if css = ''a[href]''
              then [leaf ''Read more'' [(''href'', ''/blog/x'')]]
              else [])
       None\<close>

text \<open>
  \<^verbatim>\<open><article><h2>AI Breakthrough in Reasoning</h2><p>xxx...x</p></article>\<close>, the
  paragraph of 600 characters.
\<close>

definition long_container :: element where
  \<open>long_container =
     Element (''AI Breakthrough in Reasoning'' @ replicate 600 CHR ''x'') []
       (\<lambda>css. if css \<in> {''h2'', ''h2, h3'', ''h2, h3, a[href*="/blog/"]''}
              then [leaf ''AI Breakthrough in Reasoning'' []]
              else if css \<in> {''p'', ''p, [class*="summary"]''}
              then [leaf (replicate 600 CHR ''x'') []]
              else [])
       None\<close>

definition example_entry :: competitor_entry where
  "example_entry =
     \<lparr>name = Some ''Example'', site_url = Some ''https://example.com'',
      selector = None, title_selector = None, date_selector = None, content_selector = None\<rparr>"

text \<open>
  The anchor of
  \<^verbatim>\<open><div><a href="https://blog.google/technology/ai/x">AI Breakthrough in Reasoning</a>\<close>
  \<^verbatim>\<open><p>xxx...x</p></div>\<close>, the paragraph of 600 characters. Of the enclosing tag the
  example lists what \<^verbatim>\<open>_extract_from_link\<close> asks of it, the paragraphs.
\<close>

definition long_link :: element where
  "long_link =
     Element ''AI Breakthrough in Reasoning'' [(''href'', ''https://blog.google/technology/ai/x'')]
       (\<lambda>css. [])
       (Some (Element (''AI Breakthrough in Reasoning'' @ replicate 600 CHR ''x'') []
                (\<lambda>css. if css = ''p'' then [leaf (replicate 600 CHR ''x'') []] else [])
                None))"

section \<open>The HTTP session\<close>



text \<open>
  The retry policy \<^verbatim>\<open>_create_session\<close> mounts on the session (the back-off factor,
  which only spaces the attempts, is left out).
\<close>

record retry =
  total :: nat
  read_retries :: nat
  connect_retries :: nat
  status_forcelist :: "nat list"

definition create_session_retry :: retry where
  "create_session_retry =
     \<lparr>total = 3, read_retries = 3, connect_retries = 3, status_forcelist = [500, 502, 504]\<rparr>"






section \<open>scraper.py: scrape\_website, \_save\_result, scrape\_all\<close>







subsection \<open>Failure of a fetch, and a configuration the loop can run on\<close>




section \<open>Example run\<close>






section \<open>google\_scraper.py: scrape\_google\_ai\_blog and scrape\_deepmind\<close>













section \<open>Example: a page with eleven articles\<close>









section \<open>Lemmas on first occurrence\<close>





lemma first_by_ok: "x \<in> set (first_by key ok seen xs) \<Longrightarrow> ok x"
  by (induction xs arbitrary: seen) (auto split: if_splits)

lemma merge_unique_loop_first_by:
  "merge_unique_loop seen unique as = unique @ first_by title_key has_title seen as"
  by (induction as arbitrary: seen unique) (auto simp: Let_def title_key_def has_title_def)

lemma merge_unique_first_by: "merge_unique as = first_by title_key has_title {} as"
  by (simp add: merge_unique_def merge_unique_loop_first_by)




lemma foldl_merge_step_articles:
  "merged_articles (foldl merge_step m ds) =
   merged_articles m @ concat (map (\<lambda>d. case articles d of None \<Rightarrow> [] | Some as \<Rightarrow> as) ds)"
  by (induction ds arbitrary: m) (auto simp: merge_step_def)

lemma merge_competitor_data_articles:
  "merged_articles (merge_competitor_data ds) =
   merge_unique (concat (map (\<lambda>d. case articles d of None \<Rightarrow> [] | Some as \<Rightarrow> as) ds))"
  by (simp add: merge_competitor_data_def Let_def foldl_merge_step_articles)





section \<open>C1: deduplication by title\<close>





section \<open>C9: merged articles carry a title\<close>

text \<open>
  C9. Every article in the merged output of \<^verbatim>\<open>merge_competitor_data\<close> has the title
  key with a non-empty string under it; an input article whose title is missing,
  \<^verbatim>\<open>None\<close> or empty is not in the output, duplicate or not.
\<close>

theorem merged_articles_titled:
  "(\<forall>a \<in> set (merged_articles (merge_competitor_data ds)).
      \<exists>s. title a = Some (PStr s) \<and> s \<noteq> [])
   \<and> (\<forall>a. \<not> truthy (dict_get (title a)) \<longrightarrow>
          a \<notin> set (merged_articles (merge_competitor_data ds)))"
proof -
  have ok: "has_title a" if "a \<in> set (merged_articles (merge_competitor_data ds))" for a
    using that unfolding merge_competitor_data_articles merge_unique_first_by
    by (rule first_by_ok)
  have "\<exists>s. title a = Some (PStr s) \<and> s \<noteq> []" if "has_title a" for a
  proof (cases "title a")
    case None
    with that show ?thesis by (simp add: has_title_def dict_get_def)
  next
    case (Some v)
    with that show ?thesis by (cases v) (simp_all add: has_title_def dict_get_def)
  qed
  with ok show ?thesis by (auto simp: has_title_def)
qed

theorem merged_articles_titled_witness:
  "merged_articles (merge_competitor_data [no_snapshot\<lparr>articles := Some untitled_records\<rparr>])
     = [untitled_records ! 3]
   \<and> \<not> truthy (dict_get (title (untitled_records ! 0)))
   \<and> \<not> truthy (dict_get (title (untitled_records ! 1)))
   \<and> \<not> truthy (dict_get (title (untitled_records ! 2)))
   \<and> title (untitled_records ! 3) = Some (PStr ''Beta'')"
  using merged_articles_titled [of "[no_snapshot\<lparr>articles := Some untitled_records\<rparr>]"]
  by (simp add: merge_competitor_data_def merge_step_def merge_unique_def no_snapshot_def
        untitled_records_def plain_article_def dict_get_def)

section \<open>Lemmas on the statistics\<close>

lemma loaded_append: "loaded (fs @ gs) = loaded fs @ loaded gs"
  by (induction fs) (auto split: option.splits)

lemma stamps_append: "stamps (ds @ es) = stamps ds @ stamps es"
  by (induction ds) (auto split: pyval.splits)

lemma stats_step_None: "stats_step st None = st"
  by (simp add: stats_step_def)

lemma stats_range_snoc:
  "range_start (stats_step st (Some d)) =
     (let ts = dict_get (timestamp d) in
      if truthy ts \<and> (\<not> truthy (range_start st) \<or> py_less ts (range_start st))
      then ts else range_start st)"
  "range_end (stats_step st (Some d)) =
     (let ts = dict_get (timestamp d) in
      if truthy ts \<and> (\<not> truthy (range_end st) \<or> py_less (range_end st) ts)
      then ts else range_end st)"
  by (simp_all add: stats_step_def Let_def)

lemma stats_competitors_snoc:
  "competitors (stats_step st (Some d)) c =
     (if source_of d = c
      then Some \<lparr>file_count = (case competitors st c of None \<Rightarrow> 0 | Some x \<Rightarrow> file_count x) + 1,
                 stats_article_count =
                   (case competitors st c of None \<Rightarrow> 0 | Some x \<Rightarrow> stats_article_count x)
                   + length (records_of d),
                 error_count = (case competitors st c of None \<Rightarrow> 0 | Some x \<Rightarrow> error_count x)
                   + (if error d \<noteq> None then 1 else 0)\<rparr>
      else competitors st c)"
  by (auto simp: stats_step_def Let_def source_of_def records_of_def split: option.splits)

lemma fold_competitors:
  "competitors (foldl stats_step
      \<lparr>total_files = n, total_articles = 0, competitors = Map.empty,
        range_start = PNone, range_end = PNone\<rparr> fs) c = tally (snapshots_of c fs)"
proof (induction fs rule: rev_induct)
  case Nil
  then show ?case by (simp add: tally_def snapshots_of_def)
next
  case (snoc f fs)
  show ?case
  proof (cases f)
    case None
    with snoc show ?thesis by (simp add: stats_step_None snapshots_of_def loaded_append)
  next
    case (Some d)
    with snoc show ?thesis
      by (auto simp: stats_competitors_snoc snapshots_of_def loaded_append tally_def
            filter_empty_conv)
  qed
qed

lemma fold_total_articles:
  "total_articles (foldl stats_step st fs) =
     total_articles st + (\<Sum>d \<leftarrow> loaded fs. length (records_of d))"
  by (induction fs arbitrary: st)
     (auto simp: stats_step_def Let_def records_of_def split: option.splits)

lemma fold_total_files: "total_files (foldl stats_step st fs) = total_files st"
  by (induction fs arbitrary: st) (auto simp: stats_step_def Let_def split: option.splits)

lemma stamps_nonempty: "s \<in> set (stamps ds) \<Longrightarrow> s \<noteq> []"
  by (induction ds) (auto split: pyval.splits if_splits)

lemma if_less_min: "(if (x::string) < y then PStr x else PStr y) = PStr (min x y)"
  by (auto simp: min_def)

lemma if_less_max: "(if (y::string) < x then PStr x else PStr y) = PStr (max x y)"
  by (auto simp: max_def)

lemma fold_range:
  "range_start (foldl stats_step
      \<lparr>total_files = n, total_articles = 0, competitors = Map.empty,
        range_start = PNone, range_end = PNone\<rparr> fs) = lowest (stamps (loaded fs))
   \<and> range_end (foldl stats_step
      \<lparr>total_files = n, total_articles = 0, competitors = Map.empty,
        range_start = PNone, range_end = PNone\<rparr> fs) = highest (stamps (loaded fs))"
proof (induction fs rule: rev_induct)
  case Nil
  then show ?case by (simp add: lowest_def highest_def)
next
  case (snoc f fs)
  show ?case
  proof (cases f)
    case None
    with snoc show ?thesis by (simp add: stats_step_None loaded_append)
  next
    case (Some d)
    have ne: "\<And>s. s \<in> set (stamps (loaded fs)) \<Longrightarrow> s \<noteq> []" by (rule stamps_nonempty)
    have fin: "finite (set (stamps (loaded fs)))" by simp
    show ?thesis
    proof (cases "dict_get (timestamp d)")
      case PNone
      with Some snoc show ?thesis
        by (simp add: stats_range_snoc Let_def loaded_append stamps_append)
    next
      case (PStr s)
      show ?thesis
      proof (cases "s = []")
        case True
        with PStr Some snoc show ?thesis
          by (simp add: stats_range_snoc Let_def loaded_append stamps_append)
      next
        case False
        show ?thesis
        proof (cases "stamps (loaded fs) = []")
          case True
          with False PStr Some snoc show ?thesis
            by (simp add: stats_range_snoc Let_def loaded_append stamps_append lowest_def highest_def)
        next
          case nonempty: False
          let ?S = "set (stamps (loaded fs))"
          have S: "?S \<noteq> {}" using nonempty by simp
          have m: "Min ?S \<noteq> []" "Max ?S \<noteq> []"
            using ne Min_in [OF fin S] Max_in [OF fin S] by auto
          have old: "range_start (foldl stats_step
              \<lparr>total_files = n, total_articles = 0, competitors = Map.empty,
               range_start = PNone, range_end = PNone\<rparr> fs) = PStr (Min ?S)"
            "range_end (foldl stats_step
              \<lparr>total_files = n, total_articles = 0, competitors = Map.empty,
               range_start = PNone, range_end = PNone\<rparr> fs) = PStr (Max ?S)"
            using snoc nonempty by (simp_all add: lowest_def highest_def)
          have new: "stamps (loaded (fs @ [f])) = stamps (loaded fs) @ [s]"
            using Some PStr False by (simp add: loaded_append stamps_append)
          have mm: "Min (set (stamps (loaded (fs @ [f])))) = min s (Min ?S)"
            "Max (set (stamps (loaded (fs @ [f])))) = max s (Max ?S)"
            using S by (simp_all add: new)
          have lo: "lowest (stamps (loaded (fs @ [f]))) = PStr (min s (Min ?S))"
            unfolding lowest_def mm [symmetric] by (simp add: new)
          have hi: "highest (stamps (loaded (fs @ [f]))) = PStr (max s (Max ?S))"
            unfolding highest_def mm [symmetric] by (simp add: new)
          have rs: "range_start (foldl stats_step
              \<lparr>total_files = n, total_articles = 0, competitors = Map.empty,
               range_start = PNone, range_end = PNone\<rparr> (fs @ [f]))
              = (if s < Min ?S then PStr s else PStr (Min ?S))"
            using Some PStr False m(1) old(1)
            by (simp add: stats_range_snoc Let_def del: Min_less_iff Min_gr_iff)
          have re: "range_end (foldl stats_step
              \<lparr>total_files = n, total_articles = 0, competitors = Map.empty,
               range_start = PNone, range_end = PNone\<rparr> (fs @ [f]))
              = (if Max ?S < s then PStr s else PStr (Max ?S))"
            using Some PStr False m(2) old(2)
            by (simp add: stats_range_snoc Let_def del: Max_less_iff Max_gr_iff)
          show ?thesis
            unfolding rs re lo hi by (simp only: if_less_min if_less_max)
        qed
      qed
    qed
  qed
qed

section \<open>C7: aggregation\<close>

text \<open>
  C7. For every collection of persisted snapshots, \<^verbatim>\<open>calculate_statistics\<close> gives
  each source its number of snapshots, the sum of the lengths of their article lists and
  the number of them that carry an error; the range runs from the least to the greatest
  non-empty timestamp in the lexical order of strings. Two snapshots of "OpenAI" with 4
  and 6 records and no error give the counts 2, 10 and 0.
\<close>

theorem calculate_statistics_aggregates:
  "competitors (calculate_statistics fs) c = tally (snapshots_of c fs)
   \<and> total_files (calculate_statistics fs) = length fs
   \<and> total_articles (calculate_statistics fs) = (\<Sum>d \<leftarrow> loaded fs. length (records_of d))
   \<and> range_start (calculate_statistics fs) = lowest (stamps (loaded fs))
   \<and> range_end (calculate_statistics fs) = highest (stamps (loaded fs))
   \<and> competitors (calculate_statistics ex_files) (PStr ''OpenAI'')
       = Some \<lparr>file_count = 2, stats_article_count = 10, error_count = 0\<rparr>
   \<and> range_start (calculate_statistics ex_files) = PStr ''2024-01-01T09:00:00''
   \<and> range_end (calculate_statistics ex_files) = PStr ''2024-01-02T09:00:00''"
proof -
  have "competitors (calculate_statistics ex_files) (PStr ''OpenAI'')
        = Some \<lparr>file_count = 2, stats_article_count = 10, error_count = 0\<rparr>"
    by (simp add: calculate_statistics_def ex_files_def stats_step_def openai_snapshot_def Let_def)
  moreover have "range_start (calculate_statistics ex_files) = PStr ''2024-01-01T09:00:00''"
    by (simp add: calculate_statistics_def ex_files_def stats_step_def openai_snapshot_def Let_def
          dict_get_def)
  moreover have "range_end (calculate_statistics ex_files) = PStr ''2024-01-02T09:00:00''"
    by (simp add: calculate_statistics_def ex_files_def stats_step_def openai_snapshot_def Let_def
          dict_get_def)
  ultimately show ?thesis
    by (simp add: calculate_statistics_def fold_competitors fold_total_articles fold_total_files
          fold_range)
qed

section \<open>C8: missing and malformed configuration\<close>

text \<open>
  C8. When the configuration file is absent, \<^verbatim>\<open>_load_config\<close> logs one warning and
  returns the built-in configuration, which has exactly one competitor entry; when the
  file is there and its text is not JSON, the parse error reaches the caller.
\<close>

theorem load_config_missing_or_malformed:
  "(files path = NotFound \<longrightarrow>
      load_config json_load files path
        = ([(WARNING, ''Config file '' @ path @ '' not found. Using defaults.'')],
           Inr get_default_config))
   \<and> (\<exists>c. config_competitors get_default_config = Some [c] \<and> name c = Some ''OpenAI'')
   \<and> (files path = FileText raw \<and> json_load raw = None \<longrightarrow>
        load_config json_load files path = ([], Inl JSONDecodeError))"
  by (simp add: load_config_def get_default_config_def)

theorem load_config_missing_or_malformed_witness:
  "(\<lambda>p. if p = ''config.json'' then NotFound else FileText ''{'') ''config.json'' = NotFound
   \<and> snd (load_config (\<lambda>t. None) (\<lambda>p. if p = ''config.json'' then NotFound else FileText ''{'')
        ''config.json'') = Inr get_default_config
   \<and> (\<lambda>p. if p = ''config.json'' then NotFound else FileText ''{'') ''broken.json'' = FileText ''{''
   \<and> (\<lambda>t. None :: config option) ''{'' = None
   \<and> load_config (\<lambda>t. None) (\<lambda>p. if p = ''config.json'' then NotFound else FileText ''{'')
        ''broken.json'' = ([], Inl JSONDecodeError)"
  using load_config_missing_or_malformed
          [where files = "\<lambda>p. if p = ''config.json'' then NotFound else FileText ''{''"
             and path = "''config.json''" and json_load = "\<lambda>t. None"]
        load_config_missing_or_malformed
          [where files = "\<lambda>p. if p = ''config.json'' then NotFound else FileText ''{''"
             and path = "''broken.json''" and json_load = "\<lambda>t. None" and raw = "''{''"]
  by simp

section \<open>Lemmas on the extraction routines\<close>

lemmas page_defs =
  leaf_def select_one_def get_attr_def get_or_def preview_def absolutize_def
  title_selectors_def date_selectors_def content_selectors_def example_entry_def

lemma preview_take: "c \<noteq> [] \<Longrightarrow> preview (PStr c) = PStr (take 500 c)"
  by (simp add: preview_def)

lemma extract_article_data_preview:
  "extract_article_data urljoin e entry = Some a \<Longrightarrow>
   content_preview a =
     Some (preview (PStr (join '' '' (map get_text
       (take 3 (select e (get_or (content_selector entry) ''p'')))))))"
  by (auto simp: extract_article_data_def extract_article_data_try_def Let_def
           split: sum.splits if_splits)

lemma extract_google_article_preview:
  "extract_google_article urljoin e base = Some a \<Longrightarrow>
   content_preview a = Some (preview (google_content e content_selectors PNone))"
  by (auto simp: extract_google_article_def extract_google_article_try_def Let_def
           split: sum.splits if_splits option.splits)

lemma extract_deepmind_article_preview:
  \<open>extract_deepmind_article urljoin e base = Some a \<Longrightarrow>
   content_preview a =
     Some (preview (case select_one e ''p, [class*="summary"]'' of
                      None \<Rightarrow> PNone | Some content_elem \<Rightarrow> PStr (get_text content_elem)))\<close>
  by (auto simp: extract_deepmind_article_def extract_deepmind_article_try_def Let_def
           split: sum.splits if_splits)

lemma extract_from_link_preview:
  \<open>extract_from_link urljoin l base = Some a \<Longrightarrow>
   content_preview a =
     Some (preview (case parent l of
                      None \<Rightarrow> PNone
                    | Some p \<Rightarrow> (case select_one p ''p'' of
                                  None \<Rightarrow> PNone
                                | Some content_elem \<Rightarrow> PStr (get_text content_elem))))\<close>
  by (auto simp: extract_from_link_def extract_from_link_try_def Let_def
           split: sum.splits if_splits)

lemma truncate_text_marks:
  "length s = 600 \<Longrightarrow> truncate_text s 500 = take 497 s @ ''...''"
  by (auto simp: truncate_text_def slice_to_def)

section \<open>C3: the excerpt is a plain prefix\<close>

text \<open>
  C3. In every extraction routine the stored excerpt of a non-empty content text is its
  first 500 characters and nothing else, so a text of length 600 is stored with length
  exactly 500 and no marker. (\<^verbatim>\<open>truncate_text\<close> of utils.py, which appends an
  ellipsis, is not called when a record is captured.)
\<close>

theorem excerpt_is_plain_prefix:
  \<open>(extract_article_data urljoin e entry = Some a
      \<and> join '' '' (map get_text (take 3 (select e (get_or (content_selector entry) ''p'')))) = c
      \<and> length c = 600
     \<longrightarrow> content_preview a = Some (PStr (take 500 c)) \<and> length (take 500 c) = 500)
   \<and> (extract_google_article urljoin e base = Some a
        \<and> google_content e content_selectors PNone = PStr c \<and> length c = 600
       \<longrightarrow> content_preview a = Some (PStr (take 500 c)) \<and> length (take 500 c) = 500)
   \<and> (extract_deepmind_article urljoin e base = Some a
        \<and> select_one e ''p, [class*="summary"]'' = Some p \<and> get_text p = c \<and> length c = 600
       \<longrightarrow> content_preview a = Some (PStr (take 500 c)) \<and> length (take 500 c) = 500)
   \<and> (extract_from_link urljoin l base = Some a
        \<and> parent l = Some q \<and> select_one q ''p'' = Some p \<and> get_text p = c \<and> length c = 600
       \<longrightarrow> content_preview a = Some (PStr (take 500 c)) \<and> length (take 500 c) = 500)\<close>
proof -
  have ne: "length c = 600 \<Longrightarrow> c \<noteq> []" by auto
  show ?thesis
    using extract_article_data_preview [of urljoin e entry a]
      extract_google_article_preview [of urljoin e base a]
      extract_deepmind_article_preview [of urljoin e base a]
      extract_from_link_preview [of urljoin l base a]
    by (auto simp: preview_take ne)
qed

theorem excerpt_is_plain_prefix_witness:
  \<open>extract_article_data (\<lambda>b r. None) long_container example_entry
     = Some \<lparr>title = Some (PStr ''AI Breakthrough in Reasoning''), link = Some PNone,
              date = Some PNone, content_preview = Some (PStr (replicate 500 CHR ''x'')),
              category = None, source = None\<rparr>
   \<and> join '' '' (map get_text (take 3 (select long_container
        (get_or (content_selector example_entry) ''p'')))) = replicate 600 CHR ''x''
   \<and> length (replicate 600 CHR ''x'') = 600
   \<and> extract_google_article (\<lambda>b r. None) long_container ''https://blog.google/technology/ai/''
     = Some \<lparr>title = Some (PStr ''AI Breakthrough in Reasoning''), link = Some PNone,
              date = Some PNone, content_preview = Some (PStr (replicate 500 CHR ''x'')),
              category = Some PNone, source = Some (PStr ''Google AI Blog'')\<rparr>
   \<and> google_content long_container content_selectors PNone = PStr (replicate 600 CHR ''x'')
   \<and> extract_deepmind_article (\<lambda>b r. None) long_container ''https://blog.google/technology/ai/''
     = Some \<lparr>title = Some (PStr ''AI Breakthrough in Reasoning''), link = Some PNone,
              date = Some PNone, content_preview = Some (PStr (replicate 500 CHR ''x'')),
              category = None, source = Some (PStr ''DeepMind'')\<rparr>
   \<and> select_one long_container ''p, [class*="summary"]'' = Some (leaf (replicate 600 CHR ''x'') [])
   \<and> get_text (leaf (replicate 600 CHR ''x'') []) = replicate 600 CHR ''x''
   \<and> extract_from_link (\<lambda>b r. None) long_link ''https://blog.google/technology/ai/''
     = Some \<lparr>title = Some (PStr ''AI Breakthrough in Reasoning''),
              link = Some (PStr ''https://blog.google/technology/ai/x''),
              date = Some PNone, content_preview = Some (PStr (replicate 500 CHR ''x'')),
              category = None, source = Some (PStr ''Google AI'')\<rparr>
   \<and> map_option (\<lambda>q. select_one q ''p'') (parent long_link)
       = Some (Some (leaf (replicate 600 CHR ''x'') []))
   \<and> take 500 (replicate 600 CHR ''x'') = replicate 500 CHR ''x''\<close>
  using excerpt_is_plain_prefix
          [where urljoin = "\<lambda>b r. None" and e = long_container and entry = example_entry
             and c = "replicate 600 CHR ''x''" and base = "''https://blog.google/technology/ai/''"
             and p = "leaf (replicate 600 CHR ''x'') []" and l = long_link
             and q = "Element (''AI Breakthrough in Reasoning'' @ replicate 600 CHR ''x'') []
                (\<lambda>css. if css = ''p'' then [leaf (replicate 600 CHR ''x'') []] else []) None"
             and a = "\<lparr>title = Some (PStr ''AI Breakthrough in Reasoning''), link = Some PNone,
              date = Some PNone, content_preview = Some (PStr (replicate 500 CHR ''x'')),
              category = None, source = None\<rparr>"]
        excerpt_is_plain_prefix
          [where urljoin = "\<lambda>b r. None" and e = long_container and entry = example_entry
             and c = "replicate 600 CHR ''x''" and base = "''https://blog.google/technology/ai/''"
             and p = "leaf (replicate 600 CHR ''x'') []" and l = long_link
             and q = "Element (''AI Breakthrough in Reasoning'' @ replicate 600 CHR ''x'') []
                (\<lambda>css. if css = ''p'' then [leaf (replicate 600 CHR ''x'') []] else []) None"
             and a = "\<lparr>title = Some (PStr ''AI Breakthrough in Reasoning''), link = Some PNone,
              date = Some PNone, content_preview = Some (PStr (replicate 500 CHR ''x'')),
              category = Some PNone, source = Some (PStr ''Google AI Blog'')\<rparr>"]
        excerpt_is_plain_prefix
          [where urljoin = "\<lambda>b r. None" and e = long_container and entry = example_entry
             and c = "replicate 600 CHR ''x''" and base = "''https://blog.google/technology/ai/''"
             and p = "leaf (replicate 600 CHR ''x'') []" and l = long_link
             and q = "Element (''AI Breakthrough in Reasoning'' @ replicate 600 CHR ''x'') []
                (\<lambda>css. if css = ''p'' then [leaf (replicate 600 CHR ''x'') []] else []) None"
             and a = "\<lparr>title = Some (PStr ''AI Breakthrough in Reasoning''), link = Some PNone,
              date = Some PNone, content_preview = Some (PStr (replicate 500 CHR ''x'')),
              category = None, source = Some (PStr ''DeepMind'')\<rparr>"]
        excerpt_is_plain_prefix
          [where urljoin = "\<lambda>b r. None" and e = long_container and entry = example_entry
             and c = "replicate 600 CHR ''x''" and base = "''https://blog.google/technology/ai/''"
             and p = "leaf (replicate 600 CHR ''x'') []" and l = long_link
             and q = "Element (''AI Breakthrough in Reasoning'' @ replicate 600 CHR ''x'') []
                (\<lambda>css. if css = ''p'' then [leaf (replicate 600 CHR ''x'') []] else []) None"
             and a = "\<lparr>title = Some (PStr ''AI Breakthrough in Reasoning''), link = Some (PStr ''https://blog.google/technology/ai/x''),
              date = Some PNone, content_preview = Some (PStr (replicate 500 CHR ''x'')),
              category = None, source = Some (PStr ''Google AI'')\<rparr>"]
  by (simp add: extract_article_data_def extract_article_data_try_def
        extract_google_article_def extract_google_article_try_def
        extract_deepmind_article_def extract_deepmind_article_try_def
        extract_from_link_def extract_from_link_try_def
        long_container_def long_link_def page_defs)

section \<open>C4: the date of a container\<close>

lemma extract_article_data_prefers_datetime:
  "extract_article_data urljoin e entry = Some a \<Longrightarrow>
   select_one e (get_or (date_selector entry) ''time'') = Some d \<Longrightarrow>
   get_attr d ''datetime'' = PStr v \<Longrightarrow> date a = Some (PStr v)"
  by (auto simp: extract_article_data_def extract_article_data_try_def Let_def
           split: sum.splits if_splits)

lemma extract_google_article_prefers_datetime:
  "extract_google_article urljoin e base = Some a \<Longrightarrow>
   select_one e ''time'' = Some d \<Longrightarrow>
   get_attr d ''datetime'' = PStr v \<Longrightarrow> v \<noteq> [] \<Longrightarrow> date a = Some (PStr v)"
  by (auto simp: extract_google_article_def extract_google_article_try_def Let_def
        date_selectors_def split: sum.splits if_splits option.splits)

text \<open>
  C4, evaluated where the matched date element has both a \<^verbatim>\<open>datetime\<close> attribute and
  visible text. \<^verbatim>\<open>_extract_article_data\<close> and \<^verbatim>\<open>_extract_google_article\<close> store the
  attribute; \<^verbatim>\<open>_extract_deepmind_article\<close> reads the visible text alone and stores
  that.
\<close>

theorem deepmind_date_ignores_datetime:
  "extract_deepmind_article urljoin dated_container base
     = Some \<lparr>title = Some (PStr ''AI Breakthrough in Reasoning''), link = Some PNone,
             date = Some (PStr ''January 1, 2024''), content_preview = Some PNone,
             category = None, source = Some (PStr ''DeepMind'')\<rparr>
   \<and> extract_google_article urljoin dated_container base
     = Some \<lparr>title = Some (PStr ''AI Breakthrough in Reasoning''), link = Some PNone,
             date = Some (PStr ''2024-01-01''), content_preview = Some PNone,
             category = Some PNone, source = Some (PStr ''Google AI Blog'')\<rparr>
   \<and> extract_article_data urljoin dated_container example_entry
     = Some \<lparr>title = Some (PStr ''AI Breakthrough in Reasoning''), link = Some PNone,
             date = Some (PStr ''2024-01-01''), content_preview = Some PNone,
             category = None, source = None\<rparr>"
  by (simp add: extract_deepmind_article_def extract_deepmind_article_try_def
        extract_google_article_def extract_google_article_try_def
        extract_article_data_def extract_article_data_try_def dated_container_def page_defs)

section \<open>C5: a title below the minimum length\<close>

text \<open>
  C5, evaluated at a container whose only title candidate is the four characters
  "News". \<^verbatim>\<open>_extract_deepmind_article\<close> produces no record; in
  \<^verbatim>\<open>_extract_google_article\<close> the loop that filters short texts leaves the last short
  text in \<^verbatim>\<open>title\<close>, and a record with that title is produced.
\<close>

theorem google_short_title_kept:
  "extract_google_article urljoin short_title_container base
     = Some \<lparr>title = Some (PStr ''News''), link = Some PNone, date = Some PNone,
             content_preview = Some PNone, category = Some PNone,
             source = Some (PStr ''Google AI Blog'')\<rparr>
   \<and> extract_deepmind_article urljoin short_title_container base = None"
  by (simp add: extract_google_article_def extract_google_article_try_def
        extract_deepmind_article_def extract_deepmind_article_try_def
        short_title_container_def page_defs)

section \<open>C6: the link of a container\<close>

text \<open>
  C6, evaluated at a container whose first anchor has no \<^verbatim>\<open>href\<close> and whose second
  anchor has the relative \<^verbatim>\<open>href\<close> "/blog/x". \<^verbatim>\<open>_extract_article_data\<close> selects
  the first anchor of any kind and stores no link; \<^verbatim>\<open>_extract_google_article\<close> selects
  the first anchor that has an \<^verbatim>\<open>href\<close> and stores what \<^verbatim>\<open>urljoin\<close> makes of it.
\<close>

theorem first_anchor_without_href:
  "extract_article_data urljoin anchored_container example_entry
     = Some \<lparr>title = Some (PStr ''AI Breakthrough in Reasoning''), link = Some PNone,
             date = Some PNone, content_preview = Some PNone, category = None, source = None\<rparr>
   \<and> extract_google_article urljoin anchored_container ''https://example.com''
     = (case urljoin ''https://example.com'' ''/blog/x'' of
          None \<Rightarrow> None
        | Some u \<Rightarrow>
            Some \<lparr>title = Some (PStr ''AI Breakthrough in Reasoning''), link = Some (PStr u),
                  date = Some PNone, content_preview = Some PNone, category = Some PNone,
                  source = Some (PStr ''Google AI Blog'')\<rparr>)"
  by (simp add: extract_article_data_def extract_article_data_try_def
        extract_google_article_def extract_google_article_try_def
        anchored_container_def page_defs split: option.splits)

section \<open>Lemmas on scrape\_website and scrape\_all\<close>











lemma status_503_not_forced: "503 \<notin> set (status_forcelist create_session_retry)"
  by (simp add: create_session_retry_def)

section \<open>C2: a failed fetch is recorded and the run goes on\<close>



section \<open>Lemmas on the Google scrapers\<close>











section \<open>C10: article\_count and the length of articles\<close>



end
